theory Spec2Isabelle
  imports Main "HOL-Library.AList"
begin

section \<open>Python strings and values\<close>

text \<open>
  A Python \<open>str\<close> is modelled as a \<open>string\<close>, one \<open>char\<close> per character; the
  characters are the code points below 256. \<open>py_isspace\<close> lists the characters of that
  range that \<open>str.strip()\<close> removes (those for which \<open>str.isspace()\<close> holds).
\<close>

definition py_isspace :: "char \<Rightarrow> bool" where
  "py_isspace c = (c \<in> set [CHR 0x09, CHR 0x0A, CHR 0x0B, CHR 0x0C, CHR 0x0D,
                              CHR 0x1C, CHR 0x1D, CHR 0x1E, CHR 0x1F, CHR 0x20,
                              CHR 0x85, CHR 0xA0])"

definition lstrip :: "string \<Rightarrow> string" where
  "lstrip s = dropWhile py_isspace s"

definition rstrip :: "string \<Rightarrow> string" where
  "rstrip s = rev (dropWhile py_isspace (rev s))"

definition strip :: "string \<Rightarrow> string" where
  "strip s = lstrip (rstrip s)"

definition startswith :: "string \<Rightarrow> string \<Rightarrow> bool" where
  "startswith s p = (take (length p) s = p)"

text \<open>A text between single quotes, as it stands inside a message.\<close>

definition quoted :: "string \<Rightarrow> string" where
  "quoted s = CHR 0x27 # s @ [CHR 0x27]"

text \<open>The exceptions the modelled code raises or lets through, with their message.\<close>

datatype exn =
    APIError string
  | ValueError string
  | ValidationError string
  | AttributeError string
  | TypeError string
  | JSONDecodeError string
  | ResponseNotRead

text \<open>
  A decoded JSON value, as \<open>json.loads\<close> returns it: \<open>None\<close>, \<open>bool\<close>, \<open>int\<close>,
  \<open>float\<close> (kept as its lexeme), \<open>str\<close>, \<open>list\<close> and \<open>dict\<close> (keys in insertion
  order).
\<close>

datatype json =
    JNull
  | JBool bool
  | JInt int
  | JFloat string
  | JString string
  | JArray "json list"
  | JObject "(string \<times> json) list"

subsection \<open>Decimal numerals\<close>

text \<open>\<open>str(n)\<close> for an integer, as an f-string formats it.\<close>

definition digit_char :: "nat \<Rightarrow> char" where
  "digit_char d = char_of (48 + d)"

fun str_nat :: "nat \<Rightarrow> string" where
  "str_nat n = (if n < 10 then [digit_char n] else str_nat (n div 10) @ [digit_char (n mod 10)])"

declare str_nat.simps [simp del]

definition str_int :: "int \<Rightarrow> string" where
  "str_int i = (if i < 0 then CHR ''-'' # str_nat (nat (- i)) else str_nat (nat i))"

text \<open>
  \<open>int(s)\<close> in base 10: surrounding whitespace is dropped, a sign may come first, and the
  digits may be grouped by single underscores. \<open>None\<close> is the \<open>ValueError\<close>.
\<close>

definition is_digit :: "char \<Rightarrow> bool" where
  "is_digit c = ((48::nat) \<le> of_char c \<and> of_char c \<le> (57::nat))"

definition digit_val :: "char \<Rightarrow> nat" where
  "digit_val c = of_char c - 48"




subsection \<open>The JSON decoder\<close>

text \<open>
  \<open>json.loads\<close> belongs to Python's standard library. The gateway takes the decoder as
  a parameter (\<open>None\<close> is its \<open>JSONDecodeError\<close>), so what is proved of the gateway holds
  for any decoder. \<open>json_loads\<close> is the decoder used to run the gateway on concrete
  text: the grammar of RFC 8259 with the literals \<open>NaN\<close>, \<open>Infinity\<close> and
  \<open>-Infinity\<close> that Python accepts, a later duplicate key replacing the value of the
  earlier one, and \<open>\u\<close> escapes limited to the characters modelled. Nested values use
  up one unit of fuel each; the fuel is the length of the text.
\<close>

definition json_ws :: "char \<Rightarrow> bool" where
  "json_ws c = (c \<in> set [CHR 0x20, CHR 0x09, CHR 0x0A, CHR 0x0D])"

definition skip_ws :: "string \<Rightarrow> string" where
  "skip_ws s = dropWhile json_ws s"

definition hex_val :: "char \<Rightarrow> nat option" where
  "hex_val c =
     (let n = (of_char c :: nat) in
      if 48 \<le> n \<and> n \<le> 57 then Some (n - 48)
      else if 65 \<le> n \<and> n \<le> 70 then Some (n - 55)
      else if 97 \<le> n \<and> n \<le> 102 then Some (n - 87)
      else None)"

definition hex4 :: "string \<Rightarrow> nat option" where
  "hex4 s =
     (case map hex_val (take 4 s) of
        [Some a, Some b, Some c, Some d] \<Rightarrow> Some (((a * 16 + b) * 16 + c) * 16 + d)
      | _ \<Rightarrow> None)"

definition escape_char :: "char \<Rightarrow> char option" where
  "escape_char e =
     (if e = CHR 0x22 then Some (CHR 0x22)
      else if e = CHR 0x5C then Some (CHR 0x5C)
      else if e = CHR ''/'' then Some (CHR ''/'')
      else if e = CHR ''b'' then Some (CHR 0x08)
      else if e = CHR ''f'' then Some (CHR 0x0C)
      else if e = CHR ''n'' then Some (CHR 0x0A)
      else if e = CHR ''r'' then Some (CHR 0x0D)
      else if e = CHR ''t'' then Some (CHR 0x09)
      else None)"

text \<open>The text of a string after its opening quote; \<open>acc\<close> holds it reversed.\<close>

fun parse_string_body :: "string \<Rightarrow> string \<Rightarrow> (string \<times> string) option" where
  "parse_string_body acc [] = None"
| "parse_string_body acc [c] = (if c = CHR 0x22 then Some (rev acc, []) else None)"
| "parse_string_body acc (c # e # es) =
     (if c = CHR 0x22 then Some (rev acc, e # es)
      else if c = CHR 0x5C then
        (if e = CHR ''u'' then
           (case hex4 es of
              None \<Rightarrow> None
            | Some n \<Rightarrow> if n < 256 then parse_string_body (char_of n # acc) (drop 4 es) else None)
         else (case escape_char e of
                 None \<Rightarrow> None
               | Some x \<Rightarrow> parse_string_body (x # acc) es))
      else if (of_char c :: nat) < 32 then None
      else parse_string_body (c # acc) (e # es))"

definition nat_of_digits :: "string \<Rightarrow> nat" where
  "nat_of_digits ds = foldl (\<lambda>n c. 10 * n + digit_val c) 0 ds"

text \<open>
  A number: \<open>-?(0|[1-9][0-9]*)(\.[0-9]+)?([eE][-+]?[0-9]+)?\<close>, the longest match; an
  \<open>int\<close> when it has neither fraction nor exponent, a \<open>float\<close> otherwise.
\<close>

definition number_frac :: "string \<Rightarrow> string \<times> string" where
  "number_frac s =
     (case s of
        c # d # r \<Rightarrow>
          if c = CHR ''.'' \<and> is_digit d
          then (c # takeWhile is_digit (d # r), dropWhile is_digit (d # r))
          else ([], s)
      | _ \<Rightarrow> ([], s))"

definition number_exp :: "string \<Rightarrow> string \<times> string" where
  "number_exp s =
     (case s of
        [] \<Rightarrow> ([], s)
      | c # r \<Rightarrow>
          if c = CHR ''e'' \<or> c = CHR ''E'' then
            (let sign = (if r \<noteq> [] \<and> (hd r = CHR ''+'' \<or> hd r = CHR ''-'') then [hd r] else []);
                 r1 = drop (length sign) r
             in if r1 \<noteq> [] \<and> is_digit (hd r1)
                then (c # sign @ takeWhile is_digit r1, dropWhile is_digit r1)
                else ([], s))
          else ([], s))"

definition parse_number :: "string \<Rightarrow> (json \<times> string) option" where
  "parse_number s =
     (let neg = (s \<noteq> [] \<and> hd s = CHR ''-'');
          s1 = (if neg then tl s else s)
      in if s1 = [] \<or> \<not> is_digit (hd s1) then None
         else
           let ds = (if hd s1 = CHR ''0'' then ''0'' else takeWhile is_digit s1);
               r0 = drop (length ds) s1;
               (frac, r1) = number_frac r0;
               (ex, r2) = number_exp r1
           in if frac = [] \<and> ex = []
              then Some (JInt (if neg then - int (nat_of_digits ds) else int (nat_of_digits ds)), r2)
              else Some (JFloat ((if neg then ''-'' else []) @ ds @ frac @ ex), r2))"

definition parse_constant :: "string \<Rightarrow> (json \<times> string) option" where
  "parse_constant s =
     (if startswith s ''NaN'' then Some (JFloat ''NaN'', drop 3 s)
      else if startswith s ''Infinity'' then Some (JFloat ''Infinity'', drop 8 s)
      else if startswith s ''-Infinity'' then Some (JFloat ''-Infinity'', drop 9 s)
      else None)"

fun parse_value :: "nat \<Rightarrow> string \<Rightarrow> (json \<times> string) option"
  and parse_elements :: "nat \<Rightarrow> json list \<Rightarrow> string \<Rightarrow> (json \<times> string) option"
  and parse_members :: "nat \<Rightarrow> (string \<times> json) list \<Rightarrow> string \<Rightarrow> (json \<times> string) option"
where
  "parse_value 0 s = None"
| "parse_value (Suc n) s =
     (if s = [] then None
      else if hd s = CHR 0x22 then
        (case parse_string_body [] (tl s) of
           None \<Rightarrow> None
         | Some (t, r) \<Rightarrow> Some (JString t, r))
      else if hd s = CHR ''{'' then
        (let s1 = skip_ws (tl s) in
         if s1 \<noteq> [] \<and> hd s1 = CHR ''}'' then Some (JObject [], tl s1)
         else parse_members n [] s1)
      else if hd s = CHR ''['' then
        (let s1 = skip_ws (tl s) in
         if s1 \<noteq> [] \<and> hd s1 = CHR '']'' then Some (JArray [], tl s1)
         else parse_elements n [] s1)
      else if startswith s ''null'' then Some (JNull, drop 4 s)
      else if startswith s ''true'' then Some (JBool True, drop 4 s)
      else if startswith s ''false'' then Some (JBool False, drop 5 s)
      else (case parse_number s of
              Some r \<Rightarrow> Some r
            | None \<Rightarrow> parse_constant s))"
| "parse_elements 0 acc s = None"
| "parse_elements (Suc n) acc s =
     (case parse_value n s of
        None \<Rightarrow> None
      | Some (v, r) \<Rightarrow>
          (let r1 = skip_ws r in
           if r1 = [] then None
           else if hd r1 = CHR '']'' then Some (JArray (acc @ [v]), tl r1)
           else if hd r1 = CHR '','' then parse_elements n (acc @ [v]) (skip_ws (tl r1))
           else None))"
| "parse_members 0 acc s = None"
| "parse_members (Suc n) acc s =
     (if s = [] \<or> hd s \<noteq> CHR 0x22 then None
      else
        (case parse_string_body [] (tl s) of
           None \<Rightarrow> None
         | Some (k, r) \<Rightarrow>
             (let r1 = skip_ws r in
              if r1 = [] \<or> hd r1 \<noteq> CHR '':'' then None
              else
                (case parse_value n (skip_ws (tl r1)) of
                   None \<Rightarrow> None
                 | Some (v, r2) \<Rightarrow>
                     (let r3 = skip_ws r2 in
                      if r3 = [] then None
                      else if hd r3 = CHR ''}'' then Some (JObject (AList.update k v acc), tl r3)
                      else if hd r3 = CHR '','' then
                        parse_members n (AList.update k v acc) (skip_ws (tl r3))
                      else None)))))"

definition json_loads :: "string \<Rightarrow> json option" where
  "json_loads s =
     (case parse_value (Suc (length s)) (skip_ws s) of
        None \<Rightarrow> None
      | Some (v, r) \<Rightarrow> if skip_ws r = [] then Some v else None)"

section \<open>config.py\<close>

record SelfLayerConfig =
  api_key :: "string option"
  base_url :: string
  log_level :: string
  created_at :: "string option"
  updated_at :: "string option"

definition has_api_key :: "SelfLayerConfig \<Rightarrow> bool" where
  "has_api_key c = (case api_key c of None \<Rightarrow> False | Some k \<Rightarrow> 0 < length (strip k))"

text \<open>
  \<open>set_api_key\<close> raises \<open>ValueError\<close> before the assignment \<open>self.api_key = api_key\<close>;
  the model returns the exception, or the configuration with the stripped key stored.
\<close>

definition set_api_key :: "SelfLayerConfig \<Rightarrow> string \<Rightarrow> exn + SelfLayerConfig" where
  "set_api_key c k =
     (if k = [] \<or> strip k = [] then Inl (ValueError ''API key cannot be empty'')
      else let k' = strip k in
        if \<not> (startswith k' ''sl_live_'' \<or> startswith k' ''sl_test_'')
        then Inl (ValueError
          (''Invalid API key format. SelfLayer API keys must start with ''
            @ quoted ''sl_live_'' @ '' or '' @ quoted ''sl_test_''))
        else Inr (c\<lparr>api_key := Some k'\<rparr>))"

definition clear_api_key :: "SelfLayerConfig \<Rightarrow> SelfLayerConfig" where
  "clear_api_key c = c\<lparr>api_key := None\<rparr>"

definition get_masked_api_key :: "SelfLayerConfig \<Rightarrow> string" where
  "get_masked_api_key c =
     (case api_key c of
        None \<Rightarrow> ''Not set''
      | Some k \<Rightarrow>
          if k = [] then ''Not set''
          else if length k < 12 then ''***''
          else take 8 k @ ''...'' @ drop (length k - 4) k)"

subsection \<open>ConfigManager\<close>

text \<open>
  The configuration file: absent, unreadable (opening or decoding it raises), or holding a
  JSON value. The manager is its cached \<open>_config\<close> and the file. The clock
  (\<open>datetime.utcnow().isoformat()\<close>) and whether the file can be written are inputs.
\<close>

datatype config_file = No_file | Unreadable | Json_file json

record ConfigManager =
  config :: "SelfLayerConfig option"
  disk :: config_file

definition default_config :: "string \<Rightarrow> SelfLayerConfig" where
  "default_config now =
     \<lparr>api_key = None, base_url = ''https://api.selflayer.com/api/v1'', log_level = ''INFO'',
      created_at = Some now, updated_at = None\<rparr>"

text \<open>
  \<open>SelfLayerConfig(**config_data)\<close>: a field of type \<open>str\<close> takes a JSON string or, when
  the key is missing, its default; an \<open>Optional[str]\<close> field also takes \<open>null\<close>. Any
  other value fails validation (\<open>None\<close> here). Keys that are not fields are ignored.
\<close>

definition opt_str_field :: "(string \<times> json) list \<Rightarrow> string \<Rightarrow> string option option" where
  "opt_str_field d k =
     (case map_of d k of
        None \<Rightarrow> Some None
      | Some JNull \<Rightarrow> Some None
      | Some (JString s) \<Rightarrow> Some (Some s)
      | Some _ \<Rightarrow> None)"

definition str_field :: "(string \<times> json) list \<Rightarrow> string \<Rightarrow> string \<Rightarrow> string option" where
  "str_field d k dflt =
     (case map_of d k of
        None \<Rightarrow> Some dflt
      | Some (JString s) \<Rightarrow> Some s
      | Some _ \<Rightarrow> None)"

definition config_of_dict :: "(string \<times> json) list \<Rightarrow> SelfLayerConfig option" where
  "config_of_dict d =
     (case opt_str_field d ''api_key'' of None \<Rightarrow> None | Some a \<Rightarrow>
      case str_field d ''base_url'' ''https://api.selflayer.com/api/v1'' of None \<Rightarrow> None | Some b \<Rightarrow>
      case str_field d ''log_level'' ''INFO'' of None \<Rightarrow> None | Some l \<Rightarrow>
      case opt_str_field d ''created_at'' of None \<Rightarrow> None | Some cr \<Rightarrow>
      case opt_str_field d ''updated_at'' of None \<Rightarrow> None | Some u \<Rightarrow>
        Some \<lparr>api_key = a, base_url = b, log_level = l, created_at = cr, updated_at = u\<rparr>)"

definition has_key :: "(string \<times> json) list \<Rightarrow> string \<Rightarrow> bool" where
  "has_key d k = (map_of d k \<noteq> None)"

definition legacy_fields :: "string \<Rightarrow> (string \<times> json) list \<Rightarrow> (string \<times> json) list" where
  "legacy_fields now d =
     (let d1 = (if \<not> has_key d ''created_at''
                then AList.update ''created_at'' (JString now) d else d)
      in if has_key d1 ''gemini_api_key'' \<and> \<not> has_key d1 ''api_key''
         then (case map_of d1 ''gemini_api_key'' of
                 Some v \<Rightarrow> AList.update ''api_key'' v (AList.delete ''gemini_api_key'' d1)
               | None \<Rightarrow> d1)
         else d1)"

definition load_config :: "string \<Rightarrow> ConfigManager \<Rightarrow> SelfLayerConfig \<times> ConfigManager" where
  "load_config now m =
     (case config m of
        Some c \<Rightarrow> (c, m)
      | None \<Rightarrow>
          let c = (case disk m of
                     Json_file (JObject d) \<Rightarrow>
                       (case config_of_dict (legacy_fields now d) of
                          Some c \<Rightarrow> c
                        | None \<Rightarrow> default_config now)
                   | _ \<Rightarrow> default_config now)
          in (c, m\<lparr>config := Some c\<rparr>))"

definition get_config :: "string \<Rightarrow> ConfigManager \<Rightarrow> SelfLayerConfig \<times> ConfigManager" where
  "get_config now m = (case config m of None \<Rightarrow> load_config now m | Some c \<Rightarrow> (c, m))"

definition opt_json :: "string option \<Rightarrow> json" where
  "opt_json v = (case v of None \<Rightarrow> JNull | Some s \<Rightarrow> JString s)"

definition model_dump :: "SelfLayerConfig \<Rightarrow> json" where
  "model_dump c =
     JObject [(''api_key'', opt_json (api_key c)), (''base_url'', JString (base_url c)),
              (''log_level'', JString (log_level c)), (''created_at'', opt_json (created_at c)),
              (''updated_at'', opt_json (updated_at c))]"

text \<open>
  \<open>save_config\<close>: the timestamp is set on the cached object before the file is opened, so
  it stays set when the write fails; a failed write leaves the file as it was.
\<close>

definition save_config ::
  "string \<Rightarrow> bool \<Rightarrow> ConfigManager \<Rightarrow> SelfLayerConfig option \<Rightarrow> bool \<times> ConfigManager" where
  "save_config now writable m arg =
     (let m1 = (case arg of Some c \<Rightarrow> m\<lparr>config := Some c\<rparr> | None \<Rightarrow> m) in
      case config m1 of
        None \<Rightarrow> (False, m1)
      | Some c \<Rightarrow>
          let c' = c\<lparr>updated_at := Some now\<rparr>; m2 = m1\<lparr>config := Some c'\<rparr> in
          if writable then (True, m2\<lparr>disk := Json_file (model_dump c')\<rparr>)
          else (False, m2))"

text \<open>
  \<open>update_api_key\<close>: \<open>config\<close> is the cached object itself, so a successful
  \<open>set_api_key\<close> changes the cache; the \<open>ValueError\<close> is caught and turned into
  \<open>False\<close>.
\<close>

definition update_api_key ::
  "string \<Rightarrow> bool \<Rightarrow> ConfigManager \<Rightarrow> string \<Rightarrow> bool \<times> ConfigManager" where
  "update_api_key now writable m k =
     (let (c, m1) = get_config now m in
      case set_api_key c k of
        Inl e \<Rightarrow> (False, m1)
      | Inr c' \<Rightarrow> save_config now writable (m1\<lparr>config := Some c'\<rparr>) (Some c'))"

definition get_api_key :: "string \<Rightarrow> ConfigManager \<Rightarrow> string option \<times> ConfigManager" where
  "get_api_key now m = (let (c, m1) = get_config now m in (api_key c, m1))"



section \<open>models.py\<close>

text \<open>
  The record classes, one field per attribute; a field is prefixed by the name of its
  class, since several classes have an \<open>id\<close>, a \<open>title\<close> or a \<open>created_at\<close>.
\<close>

record Document =
  document_id :: string
  document_file_name :: string
  document_status :: string
  document_summary :: "string option"
  document_keywords :: "string option"
  document_created_at :: string
  document_updated_at :: string
  document_file_size :: "int option"
  document_visibility :: string
  document_content_type :: "string option"

record Note =
  note_id :: string
  note_user_id :: string
  note_title :: string
  note_content :: string
  note_status :: string
  note_processing_error :: "string option"
  note_created_at :: string
  note_updated_at :: string
  note_tags :: "string list"
  note_visibility :: string

record Integration =
  integration_id :: string
  integration_provider :: string
  integration_display_name :: string
  integration_account_identifier :: string
  integration_is_default :: bool
  integration_scopes :: "string list"
  integration_created_at :: string
  integration_is_sync_enabled :: bool
  integration_is_retrieval_enabled :: bool
  integration_is_syncable :: bool
  integration_sync_status :: string
  integration_last_synced_at :: "string option"
  integration_last_sync_error :: "string option"
  integration_summary :: string
  integration_tags :: "string list"

record Automation =
  automation_id :: string
  automation_user_id :: string
  automation_title :: string
  automation_description :: string
  automation_prompt :: string
  automation_type :: string
  automation_trigger_slug :: "string option"
  automation_cron_schedule :: "string option"
  automation_is_enabled :: bool
  automation_last_run_at :: "string option"
  automation_last_run_status :: "string option"
  automation_last_run_message :: "string option"
  automation_created_at :: string
  automation_updated_at :: string

record Notification =
  notification_id :: string
  notification_title :: string
  notification_message :: string
  notification_type :: string
  notification_read :: bool
  notification_datetime :: string

text \<open>
  \<open>AppState\<close>. The fields \<open>user_profile\<close>, \<open>search_results\<close> and \<open>session_start\<close>
  are neither read nor written by the operations below; they stay in the extension of
  the record, which every operation carries along unchanged. An index is a
  \<open>dict[int, str]\<close>.
\<close>

record AppState =
  api_key_set :: bool
  current_search_query :: string
  documents :: "Document list"
  "notes" :: "Note list"
  notifications :: "Notification list"
  integrations :: "Integration list"
  automations :: "Automation list"
  last_error :: string
  document_index :: "int \<rightharpoonup> string"
  note_index :: "int \<rightharpoonup> string"
  notification_index :: "int \<rightharpoonup> string"
  integration_index :: "int \<rightharpoonup> string"
  automation_index :: "int \<rightharpoonup> string"

text \<open>
  Building a record from response data (\<open>Document(**doc)\<close>) is the validation of the
  \<open>pydantic\<close> library: a parameter \<open>mk\<close> of each update, which returns the record or
  the exception raised. A list comprehension stops at the first exception.
\<close>

fun build_all :: "('a \<Rightarrow> exn + 'b) \<Rightarrow> 'a list \<Rightarrow> exn + 'b list" where
  "build_all mk [] = Inr []"
| "build_all mk (x # xs) =
     (case mk x of
        Inl e \<Rightarrow> Inl e
      | Inr y \<Rightarrow> (case build_all mk xs of Inl e \<Rightarrow> Inl e | Inr ys \<Rightarrow> Inr (y # ys)))"














definition clear_all_data :: "'a AppState_scheme \<Rightarrow> 'a AppState_scheme" where
  "clear_all_data s =
     s\<lparr>documents := [], notes := [], notifications := [], integrations := [],
       automations := [], current_search_query := [], document_index := Map.empty,
       note_index := Map.empty, notification_index := Map.empty,
       integration_index := Map.empty, automation_index := Map.empty, last_error := []\<rparr>"

section \<open>client.py\<close>

text \<open>
  What the terminal and the log receive, and what goes over the network, are effects
  listed in the order they happen. A text built by an f-string is a list of fragments:
  literal text, \<open>str()\<close> of a decoded value or of an exception, or the \<open>title\<close>
  property of a document.
\<close>

datatype fragment =
    Lit string
  | Str_json json
  | Str_exn exn
  | Title Document

record panel =
  panel_message :: "fragment list"
  panel_title :: string
  panel_border_style :: string

record request =
  req_method :: string
  req_url :: string
  req_params :: "json option"
  req_json :: "json option"
  req_files :: "(string \<times> string) list option"
  req_headers :: "(string \<times> string) list option"

datatype display =
    Panel panel
  | Error_panel "fragment list" string
  | Success_panel "fragment list" string
  | Documents_list "Document list"
  | Document_card Document int
  | Notes_list "Note list"
  | Note_card Note int
  | Integrations_list "Integration list"
  | Notifications_list "Notification list"
  | Markup string
  | Blank_line

datatype effect =
    Http request
  | Print display
  | Log_warning string
  | Yield json
  | Confirm_ask "fragment list"

text \<open>
  A response of the HTTP library: its status and its body; the body is \<open>None\<close> while
  it has not been read (a streamed response), and reading it then raises
  \<open>ResponseNotRead\<close>. A streamed response also has the lines still to come and the way
  their reading ends. The transport either delivers a response or raises.
\<close>

record response =
  status_code :: int
  body :: "string option"

datatype stream_end = End_of_stream | Read_timeout | Read_error string

record stream_response = response +
  body_lines :: "string list"
  ending :: stream_end

datatype 'r outcome = TimeoutException | RequestError string | Received 'r

record SelfLayerAPIClient =
  client_api_key :: string
  client_base_url :: string
  client_headers :: "(string \<times> string) list"

definition is_success :: "'a response_scheme \<Rightarrow> bool" where
  "is_success r = (200 \<le> status_code r \<and> status_code r \<le> 299)"

definition response_text :: "'a response_scheme \<Rightarrow> exn + string" where
  "response_text r = (case body r of None \<Rightarrow> Inl ResponseNotRead | Some t \<Rightarrow> Inr t)"

definition response_json :: "(string \<Rightarrow> json option) \<Rightarrow> 'a response_scheme \<Rightarrow> exn + json" where
  "response_json loads r =
     (case body r of
        None \<Rightarrow> Inl ResponseNotRead
      | Some t \<Rightarrow> (case loads t of None \<Rightarrow> Inl (JSONDecodeError t) | Some v \<Rightarrow> Inr v))"

definition newlines :: string where
  "newlines = [CHR 0x0A, CHR 0x0A]"

text \<open>
  \<open>_handle_error\<close>. \<open>error_data.get\<close> on a value that is not a dict raises, which the
  \<open>except Exception\<close> catches like a failed decoding; the handler then reads
  \<open>response.text\<close>, outside any \<open>try\<close>.
\<close>

definition error_msg :: "(string \<Rightarrow> json option) \<Rightarrow> 'a response_scheme \<Rightarrow> exn + fragment" where
  "error_msg loads r =
     (case response_json loads r of
        Inr (JObject error_data) \<Rightarrow>
          (case map_of error_data ''detail'' of
             Some detail \<Rightarrow> Inr (Str_json detail)
           | None \<Rightarrow> Inr (Lit (''HTTP '' @ str_int (status_code r))))
      | _ \<Rightarrow>
          (case response_text r of
             Inl e \<Rightarrow> Inl e
           | Inr t \<Rightarrow> Inr (Lit (''HTTP '' @ str_int (status_code r) @ '': '' @ t))))"

definition handle_error :: "(string \<Rightarrow> json option) \<Rightarrow> 'a response_scheme \<Rightarrow> exn + panel" where
  "handle_error loads r =
     (case error_msg loads r of
        Inl e \<Rightarrow> Inl e
      | Inr msg \<Rightarrow>
          let code = status_code r;
              (title, message) =
                (if code = 401 then
                   (''[red]Authentication Error[/red]'',
                    [Lit ''[red]'', msg, Lit ''[/red]'', Lit newlines,
                     Lit ''Check your SELFLAYER_API_KEY environment variable.''])
                 else if code = 403 then
                   (''[red]Permission Denied[/red]'',
                    [Lit ''[red]'', msg, Lit ''[/red]'', Lit newlines,
                     Lit ''Your API key may not have sufficient permissions.''])
                 else if code = 404 then
                   (''[yellow]Not Found[/yellow]'', [Lit ''[yellow]'', msg, Lit ''[/yellow]''])
                 else if code = 422 then
                   (''[red]Validation Error[/red]'', [Lit ''[red]'', msg, Lit ''[/red]''])
                 else if code = 429 then
                   (''[yellow]Rate Limited[/yellow]'',
                    [Lit ''[yellow]'', msg, Lit ''[/yellow]'', Lit newlines,
                     Lit ''Please wait and try again.''])
                 else (''[red]API Error[/red]'', [Lit ''[red]'', msg, Lit ''[/red]'']))
          in Inr \<lparr>panel_message = message, panel_title = title,
                   panel_border_style = (if 500 \<le> code then ''red'' else ''yellow'')\<rparr>)"

definition url_of :: "SelfLayerAPIClient \<Rightarrow> string \<Rightarrow> string" where
  "url_of c endpoint = client_base_url c @ ''/'' @ dropWhile (\<lambda>x. x = CHR ''/'') endpoint"

text \<open>
  The branch \<open>if not response.is_success\<close> of every call: the panel is printed, then
  \<open>APIError\<close> is raised with the status code in its message.
\<close>

definition request_failed ::
  "(string \<Rightarrow> json option) \<Rightarrow> string \<Rightarrow> 'a response_scheme \<Rightarrow> effect list \<times> exn" where
  "request_failed loads what r =
     (case handle_error loads r of
        Inl e \<Rightarrow> ([], e)
      | Inr error_panel \<Rightarrow> ([Print (Panel error_panel)], APIError (what @ str_int (status_code r))))"







text \<open>\<open>delete\<close> returns \<open>None\<close> for a 204 response, without decoding a body.\<close>

definition after_delete ::
  "(string \<Rightarrow> json option) \<Rightarrow> string \<Rightarrow> response outcome \<Rightarrow>
   effect list \<times> (exn + json option)" where
  "after_delete loads endpoint out =
     (case out of
        TimeoutException \<Rightarrow> ([], Inl (APIError (''Request timeout for '' @ endpoint)))
      | RequestError e \<Rightarrow> ([], Inl (APIError (''Request error for '' @ endpoint @ '': '' @ e)))
      | Received r \<Rightarrow>
          if \<not> is_success r
          then (let (shown, e) = request_failed loads ''API request failed: '' r
                in (shown, Inl e))
          else if status_code r = 204 then ([], Inr None)
          else ([], map_sum id Some (response_json loads r)))"

definition delete ::
  "(string \<Rightarrow> json option) \<Rightarrow> ('w \<Rightarrow> request \<Rightarrow> response outcome \<times> 'w) \<Rightarrow> SelfLayerAPIClient \<Rightarrow>
   'w \<Rightarrow> string \<Rightarrow> (effect list \<times> (exn + json option)) \<times> 'w" where
  "delete loads net c w endpoint =
     (let req = \<lparr>req_method = ''DELETE'', req_url = url_of c endpoint, req_params = None,
                 req_json = None, req_files = None, req_headers = None\<rparr>;
          (out, w') = net w req;
          (effects, res) = after_delete loads endpoint out
      in ((Http req # effects, res), w'))"

subsection \<open>The streaming reader\<close>

text \<open>
  The loop over \<open>response.aiter_lines()\<close>: the effects of the lines read, and whether
  the loop was left by \<open>break\<close> (the sentinel) rather than at the end of the lines.
\<close>

fun stream_lines :: "(string \<Rightarrow> json option) \<Rightarrow> string list \<Rightarrow> effect list \<times> bool" where
  "stream_lines loads [] = ([], False)"
| "stream_lines loads (line # rest) =
     (if strip line = [] then stream_lines loads rest
      else if startswith line ''data: '' then
        (let json_str = drop 6 line in
         if strip json_str = ''[DONE]'' then ([], True)
         else (case loads json_str of
                 Some chunk \<Rightarrow>
                   (let (effects, stopped) = stream_lines loads rest
                    in (Yield chunk # effects, stopped))
               | None \<Rightarrow>
                   (let (effects, stopped) = stream_lines loads rest
                    in (Log_warning (''Failed to parse JSON: '' @ line) # effects, stopped))))
      else (case loads line of
              Some chunk \<Rightarrow>
                (let (effects, stopped) = stream_lines loads rest
                 in (Yield chunk # effects, stopped))
            | None \<Rightarrow>
                (let (effects, stopped) = stream_lines loads rest
                 in (Log_warning (''Failed to parse JSON: '' @ line) # effects, stopped))))"

text \<open>
  \<open>stream\<close>: the effects, and the exception that ends the generator, if any. A failure
  of the transport while the lines are read is met only when the loop has not left at
  the sentinel.
\<close>

definition stream_request :: "SelfLayerAPIClient \<Rightarrow> string \<Rightarrow> (string \<times> json) list \<Rightarrow> request" where
  "stream_request c endpoint json_data =
     (let stream_data = AList.update ''stream'' (JBool True) json_data
      in \<lparr>req_method = ''POST'', req_url = url_of c endpoint, req_params = None,
          req_json = Some (JObject stream_data), req_files = None, req_headers = None\<rparr>)"

definition stream ::
  "(string \<Rightarrow> json option) \<Rightarrow> ('w \<Rightarrow> request \<Rightarrow> stream_response outcome \<times> 'w) \<Rightarrow>
   SelfLayerAPIClient \<Rightarrow> 'w \<Rightarrow> string \<Rightarrow> (string \<times> json) list \<Rightarrow>
   (effect list \<times> exn option) \<times> 'w" where
  "stream loads net c w endpoint json_data =
     (let req = stream_request c endpoint json_data;
          (out, w') = net w req
      in (case out of
            TimeoutException \<Rightarrow>
              ([Http req], Some (APIError (''Stream timeout for '' @ endpoint)))
          | RequestError e \<Rightarrow>
              ([Http req], Some (APIError (''Stream error for '' @ endpoint @ '': '' @ e)))
          | Received r \<Rightarrow>
              if \<not> is_success r
              then (let (shown, e) = request_failed loads ''API stream failed: '' r
                    in (Http req # shown, Some e))
              else
                (let (effects, stopped) = stream_lines loads (body_lines r)
                 in (Http req # effects,
                     if stopped then None
                     else (case ending r of
                             End_of_stream \<Rightarrow> None
                           | Read_timeout \<Rightarrow>
                               Some (APIError (''Stream timeout for '' @ endpoint))
                           | Read_error e \<Rightarrow>
                               Some (APIError (''Stream error for '' @ endpoint @ '': '' @ e))))),
          w'))"

definition yielded :: "effect list \<Rightarrow> json list" where
  "yielded effects = concat (map (\<lambda>e. case e of Yield v \<Rightarrow> [v] | _ \<Rightarrow> []) effects)"

definition warnings :: "effect list \<Rightarrow> string list" where
  "warnings effects = concat (map (\<lambda>e. case e of Log_warning s \<Rightarrow> [s] | _ \<Rightarrow> []) effects)"

definition requests :: "effect list \<Rightarrow> request list" where
  "requests effects = concat (map (\<lambda>e. case e of Http r \<Rightarrow> [r] | _ \<Rightarrow> []) effects)"

subsection \<open>Calls of single endpoints\<close>












text \<open>What a call prints, and the exception it raises, if any.\<close>

definition printed :: "effect list \<Rightarrow> display list" where
  "printed effects = concat (map (\<lambda>e. case e of Print d \<Rightarrow> [d] | _ \<Rightarrow> []) effects)"



section \<open>tui.py\<close>

text \<open>
  \<open>SelfLayerCLI\<close>. A method \<open>_name\<close> of the class is \<open>cli_name\<close> here. A handler
  returns its effects in order, the instance as it leaves it and the outside world; the
  answer to \<open>Confirm.ask\<close>, should the handler ask, is an input. The transient progress
  spinner is not an effect.
\<close>

record 'a SelfLayerCLI =
  app_state :: "'a AppState_scheme"
  client :: "SelfLayerAPIClient option"
  running :: bool

subsection \<open>Dispatch\<close>

datatype handler =
    Cmd_help
  | Cmd_key "string list"
  | Cmd_ask "string list"
  | Cmd_search "string list"
  | Cmd_documents "string list"
  | Cmd_notes "string list"
  | Cmd_integrations "string list"
  | Cmd_automations "string list"
  | Cmd_notifications "string list"
  | Cmd_rms "string list"
  | Cmd_clear
  | Cmd_quit

datatype dispatch = Call handler | Refused display

definition credential_required :: display where
  "credential_required =
     Error_panel
       [Lit ''SelfLayer API key required. Use /key to set it or set SELFLAYER_API_KEY environment variable.'']
       ''API Error''"

definition unknown_command :: "string \<Rightarrow> display" where
  "unknown_command command =
     Error_panel
       [Lit (''Unknown command: '' @ command @ ''. Type /help for available commands.'')]
       ''Invalid Command''"

definition execute_command :: "'a SelfLayerCLI \<Rightarrow> string \<Rightarrow> string list \<Rightarrow> dispatch" where
  "execute_command cli command args =
     (if command \<notin> set [''/help'', ''/h'', ''help'', ''/key'', ''/k'', ''key'', ''/clear'', ''/c'',
                          ''clear'', ''/quit'', ''/q'', ''quit'', ''exit'']
         \<and> client cli = None
      then Refused credential_required
      else if command \<in> set [''/help'', ''help'', ''/h''] then Call Cmd_help
      else if command \<in> set [''/key'', ''key'', ''/k''] then Call (Cmd_key args)
      else if command \<in> set [''/ask'', ''ask'', ''/a''] then Call (Cmd_ask args)
      else if command \<in> set [''/search'', ''search'', ''/s''] then Call (Cmd_search args)
      else if command \<in> set [''/documents'', ''documents'', ''/d''] then Call (Cmd_documents args)
      else if command \<in> set [''/notes'', ''notes'', ''/n''] then Call (Cmd_notes args)
      else if command \<in> set [''/integrations'', ''integrations'', ''/i'']
        then Call (Cmd_integrations args)
      else if command \<in> set [''/automations'', ''automations'', ''/auto'']
        then Call (Cmd_automations args)
      else if command \<in> set [''/notifications'', ''notifications'', ''/notifs'']
        then Call (Cmd_notifications args)
      else if command \<in> set [''/rms'', ''rms'', ''/r''] then Call (Cmd_rms args)
      else if command \<in> set [''/clear'', ''clear'', ''/c''] then Call Cmd_clear
      else if command \<in> set [''/quit'', ''/exit'', ''quit'', ''exit'', ''/q''] then Call Cmd_quit
      else Refused (unknown_command command))"

subsection \<open>Documents\<close>






subsection \<open>Notes\<close>







subsection \<open>Integrations and notifications\<close>







section \<open>Concrete inputs\<close>

text \<open>
  The inputs on which the operations are run below: a stored configuration, an
  environment, record constructors that accept a dict with the required string fields,
  a transport that delivers a fixed outcome, and a client.
\<close>

definition ex_config :: SelfLayerConfig where
  "ex_config =
     \<lparr>api_key = Some ''sl_live_old_key_1'', base_url = ''https://api.selflayer.com/api/v1'',
      log_level = ''INFO'', created_at = Some ''2024-01-01T00:00:00'', updated_at = None\<rparr>"

definition ex_manager :: ConfigManager where
  "ex_manager = \<lparr>config = Some ex_config, disk = Json_file (model_dump ex_config)\<rparr>"










definition ex_state :: AppState where
  "ex_state =
     \<lparr>api_key_set = True, current_search_query = [], documents = [], notes = [],
      notifications = [], integrations = [], automations = [], last_error = [],
      document_index = [7 \<mapsto> ''stale''], note_index = [7 \<mapsto> ''stale''],
      notification_index = [7 \<mapsto> ''stale''], integration_index = [7 \<mapsto> ''stale''],
      automation_index = [7 \<mapsto> ''stale'']\<rparr>"

definition ex_client :: SelfLayerAPIClient where
  "ex_client =
     \<lparr>client_api_key = ''sl_test_key'', client_base_url = ''http://localhost:8001/api/v1'',
      client_headers = [(''Authorization'', ''Bearer sl_test_key''),
                        (''Content-Type'', ''application/json'')]\<rparr>"

definition ex_net :: "'r outcome \<Rightarrow> unit \<Rightarrow> request \<Rightarrow> 'r outcome \<times> unit" where
  "ex_net out w req = (out, w)"

text \<open>The lines of the streaming example, and responses of the remote service.\<close>

definition ex_lines :: "string list" where
  \<open>ex_lines = [''data: {"content":"a"}'', ''data: {"content":"b"}'', ''data: [DONE]'']\<close>

definition ex_stream_response :: stream_response where
  "ex_stream_response =
     \<lparr>status_code = 200, body = None, body_lines = ex_lines, ending = End_of_stream\<rparr>"


definition ex_cli :: "unit SelfLayerCLI" where
  "ex_cli = \<lparr>app_state = ex_state, client = Some ex_client, running = True\<rparr>"









section \<open>Properties\<close>

subsection \<open>Helper lemmas\<close>

lemma get_config_disk: "disk (snd (get_config now m)) = disk m"
  by (simp add: get_config_def load_config_def Let_def split: option.splits)

lemma get_config_cached: "config m = Some c \<Longrightarrow> get_config now m = (c, m)"
  by (simp add: get_config_def)

lemma get_config_idem:
  "get_config now (snd (get_config now m)) = (fst (get_config now m), snd (get_config now m))"
  by (simp add: get_config_def load_config_def Let_def split: option.splits)

subsection \<open>Masked display of the API key\<close>

text \<open>
  C10. The masked display of the stored key is \<open>Not set\<close> when no key is present (the
  field is \<open>None\<close> or the empty string, which Python both reads as false), \<open>***\<close> when
  the key has fewer than 12 characters, and otherwise its first 8 characters, three dots
  and its last 4 characters; for a key of exactly 12 characters the prefix and the suffix
  shown are together the whole key.
\<close>

theorem masked_api_key_display:
  "(api_key c = None \<or> api_key c = Some [] \<longrightarrow> get_masked_api_key c = ''Not set'')
   \<and> (\<forall>k. api_key c = Some k \<and> k \<noteq> [] \<and> length k < 12 \<longrightarrow> get_masked_api_key c = ''***'')
   \<and> (\<forall>k. api_key c = Some k \<and> 12 \<le> length k \<longrightarrow>
          get_masked_api_key c = take 8 k @ ''...'' @ drop (length k - 4) k
          \<and> length (take 8 k) = 8 \<and> length (drop (length k - 4) k) = 4)
   \<and> (\<forall>k. api_key c = Some k \<and> length k = 12 \<longrightarrow>
          take 8 k @ drop (length k - 4) k = k)"
proof -
  have none: "api_key c = None \<or> api_key c = Some [] \<longrightarrow> get_masked_api_key c = ''Not set''"
    by (auto simp: get_masked_api_key_def)
  have short: "\<forall>k. api_key c = Some k \<and> k \<noteq> [] \<and> length k < 12 \<longrightarrow> get_masked_api_key c = ''***''"
    by (simp add: get_masked_api_key_def)
  have long: "\<forall>k. api_key c = Some k \<and> 12 \<le> length k \<longrightarrow>
          get_masked_api_key c = take 8 k @ ''...'' @ drop (length k - 4) k
          \<and> length (take 8 k) = 8 \<and> length (drop (length k - 4) k) = 4"
    by (auto simp: get_masked_api_key_def)
  have twelve: "\<forall>k. api_key c = Some k \<and> length k = 12 \<longrightarrow> take 8 k @ drop (length k - 4) k = k"
    by simp
  from none short long twelve show ?thesis by blast
qed

theorem masked_api_key_display_witness:
  "get_masked_api_key
     \<lparr>api_key = Some ''sl_live_abcd'', base_url = '''', log_level = '''',
      created_at = None, updated_at = None\<rparr> = ''sl_live_...abcd''
   \<and> get_masked_api_key
     \<lparr>api_key = Some ''sl_live'', base_url = '''', log_level = '''',
      created_at = None, updated_at = None\<rparr> = ''***''
   \<and> get_masked_api_key
     \<lparr>api_key = None, base_url = '''', log_level = '''',
      created_at = None, updated_at = None\<rparr> = ''Not set''"
  using masked_api_key_display
    [of "\<lparr>api_key = Some ''sl_live_abcd'', base_url = '''', log_level = '''',
      created_at = None, updated_at = None\<rparr>"]
    masked_api_key_display
    [of "\<lparr>api_key = Some ''sl_live'', base_url = '''', log_level = '''',
      created_at = None, updated_at = None\<rparr>"]
    masked_api_key_display
    [of "\<lparr>api_key = None, base_url = '''', log_level = '''',
      created_at = None, updated_at = None\<rparr>"]
  by simp

subsection \<open>Rejected API keys\<close>

text \<open>
  C5. A candidate key that, once stripped of surrounding whitespace, starts with neither
  \<open>sl_live_\<close> nor \<open>sl_test_\<close> (the empty and the blank string among them) is rejected
  before anything is stored: \<open>set_api_key\<close> raises \<open>ValueError\<close>, \<open>update_api_key\<close>
  returns \<open>False\<close>, the configuration file is untouched and the key held by the
  configuration is the one held before; a manager whose configuration was already loaded
  is left exactly as it was.
\<close>

theorem invalid_api_key_rejected:
  assumes "\<not> (startswith (strip k) ''sl_live_'' \<or> startswith (strip k) ''sl_test_'')"
  shows "(\<exists>msg. set_api_key c k = Inl (ValueError msg))
       \<and> update_api_key now writable m k = (False, snd (get_config now m))
       \<and> disk (snd (update_api_key now writable m k)) = disk m
       \<and> fst (get_api_key now (snd (update_api_key now writable m k))) = fst (get_api_key now m)
       \<and> (\<forall>c0. config m = Some c0 \<longrightarrow> snd (update_api_key now writable m k) = m)"
proof -
  have raises: "\<And>c. \<exists>msg. set_api_key c k = Inl (ValueError msg)"
    using assms by (simp add: set_api_key_def Let_def)
  have upd: "update_api_key now writable m k = (False, snd (get_config now m))"
  proof -
    obtain c1 m1 where g: "get_config now m = (c1, m1)" by (cases "get_config now m")
    from raises [of c1] obtain msg where "set_api_key c1 k = Inl (ValueError msg)" by blast
    with g show ?thesis by (simp add: update_api_key_def)
  qed
  have d: "disk (snd (update_api_key now writable m k)) = disk m"
    by (simp add: upd get_config_disk)
  have k: "fst (get_api_key now (snd (update_api_key now writable m k))) = fst (get_api_key now m)"
    by (simp add: upd get_api_key_def get_config_idem split_beta)
  have same: "\<forall>c0. config m = Some c0 \<longrightarrow> snd (update_api_key now writable m k) = m"
    by (simp add: upd get_config_cached)
  from raises upd d k same show ?thesis by blast
qed

theorem invalid_api_key_rejected_witness:
  "update_api_key ''2024-02-02T00:00:00'' True ex_manager '' my_key '' = (False, ex_manager)
   \<and> update_api_key ''2024-02-02T00:00:00'' True ex_manager ''   '' = (False, ex_manager)
   \<and> update_api_key ''2024-02-02T00:00:00'' True ex_manager [] = (False, ex_manager)
   \<and> fst (get_api_key ''2024-02-02T00:00:00'' ex_manager) = Some ''sl_live_old_key_1''"
proof -
  have a: "\<not> (startswith (strip '' my_key '') ''sl_live_'' \<or> startswith (strip '' my_key '') ''sl_test_'')"
    by (simp add: strip_def lstrip_def rstrip_def py_isspace_def startswith_def)
  have b: "\<not> (startswith (strip ''   '') ''sl_live_'' \<or> startswith (strip ''   '') ''sl_test_'')"
    by (simp add: strip_def lstrip_def rstrip_def py_isspace_def startswith_def)
  have c: "\<not> (startswith (strip []) ''sl_live_'' \<or> startswith (strip []) ''sl_test_'')"
    by (simp add: strip_def lstrip_def rstrip_def py_isspace_def startswith_def)
  have cfg: "get_config ''2024-02-02T00:00:00'' ex_manager = (ex_config, ex_manager)"
    by (simp add: get_config_def ex_manager_def)
  show ?thesis
    using invalid_api_key_rejected [OF a, of ex_config "''2024-02-02T00:00:00''" True ex_manager]
      invalid_api_key_rejected [OF b, of ex_config "''2024-02-02T00:00:00''" True ex_manager]
      invalid_api_key_rejected [OF c, of ex_config "''2024-02-02T00:00:00''" True ex_manager]
    by (simp add: cfg get_api_key_def ex_config_def)
qed

subsection \<open>Environment variables before stored values\<close>



section \<open>The API gateway\<close>

subsection \<open>Helper lemmas\<close>











lemma printed_single [simp]: "printed [Print d] = [d]"
  by (simp add: printed_def)

lemma printed_Nil [simp]: "printed [] = []"
  by (simp add: printed_def)



lemma yielded_Cons_warning [simp]: "yielded (Log_warning s # es) = yielded es"
  by (simp add: yielded_def)

lemma yielded_Cons_yield [simp]: "yielded (Yield v # es) = v # yielded es"
  by (simp add: yielded_def)

lemma yielded_Cons_http [simp]: "yielded (Http r # es) = yielded es"
  by (simp add: yielded_def)

lemma yielded_Nil [simp]: "yielded [] = []"
  by (simp add: yielded_def)

lemma yielded_append [simp]: "yielded (xs @ ys) = yielded xs @ yielded ys"
  by (simp add: yielded_def)

lemma warnings_append [simp]: "warnings (xs @ ys) = warnings xs @ warnings ys"
  by (simp add: warnings_def)

lemma stream_result:
  assumes "\<forall>req. fst (net w req) = out"
  shows "fst (stream loads net c w endpoint json_data) =
     (case out of
        TimeoutException \<Rightarrow>
          ([Http (stream_request c endpoint json_data)],
           Some (APIError (''Stream timeout for '' @ endpoint)))
      | RequestError e \<Rightarrow>
          ([Http (stream_request c endpoint json_data)],
           Some (APIError (''Stream error for '' @ endpoint @ '': '' @ e)))
      | Received r \<Rightarrow>
          if \<not> is_success r
          then (Http (stream_request c endpoint json_data)
                  # fst (request_failed loads ''API stream failed: '' r),
                Some (snd (request_failed loads ''API stream failed: '' r)))
          else (Http (stream_request c endpoint json_data)
                  # fst (stream_lines loads (body_lines r)),
                if snd (stream_lines loads (body_lines r)) then None
                else (case ending r of
                        End_of_stream \<Rightarrow> None
                      | Read_timeout \<Rightarrow> Some (APIError (''Stream timeout for '' @ endpoint))
                      | Read_error e \<Rightarrow>
                          Some (APIError (''Stream error for '' @ endpoint @ '': '' @ e)))))"
proof -
  obtain w' where n: "net w (stream_request c endpoint json_data) = (out, w')"
    using assms by (metis prod.collapse)
  show ?thesis
    by (simp add: stream_def Let_def n split_beta split: outcome.splits)
qed




subsection \<open>Failed calls\<close>









subsection \<open>Successful calls\<close>





lemma loads_content_a:
  \<open>json_loads ''{"content":"a"}'' = Some (JObject [(''content'', JString ''a'')])\<close>
  by code_simp

lemma loads_content_b:
  \<open>json_loads ''{"content":"b"}'' = Some (JObject [(''content'', JString ''b'')])\<close>
  by code_simp



lemma ex_lines_read:
  assumes \<open>loads ''{"content":"a"}'' = Some a\<close> and \<open>loads ''{"content":"b"}'' = Some b\<close>
  shows "stream_lines loads ex_lines = ([Yield a, Yield b], True)"
  using assms
  by (simp add: ex_lines_def strip_def lstrip_def rstrip_def py_isspace_def startswith_def)

subsection \<open>The streaming example\<close>

text \<open>
  C2. Given the lines \<open>data: {"content":"a"}\<close>, \<open>data: {"content":"b"}\<close> and
  \<open>data: [DONE]\<close>, the streaming reader yields the two decoded objects, in that order,
  and stops at the sentinel, which it does not yield; \<open>stream\<close> on a successful response
  with these lines sends one request, yields the two objects and raises nothing.
\<close>

theorem stream_reads_two_objects:
  assumes \<open>loads ''{"content":"a"}'' = Some a\<close> and \<open>loads ''{"content":"b"}'' = Some b\<close>
  shows \<open>stream_lines loads
            [''data: {"content":"a"}'', ''data: {"content":"b"}'', ''data: [DONE]'']
          = ([Yield a, Yield b], True)
       \<and> (\<forall>r. (\<forall>req. fst (net w req) = Received r) \<and> is_success r
              \<and> body_lines r = [''data: {"content":"a"}'', ''data: {"content":"b"}'', ''data: [DONE]'']
            \<longrightarrow> fst (stream loads net c w endpoint data)
                  = ([Http (stream_request c endpoint data), Yield a, Yield b], None))\<close>
proof -
  have lines: "stream_lines loads ex_lines = ([Yield a, Yield b], True)"
    using assms by (rule ex_lines_read)
  have whole: "\<forall>r. (\<forall>req. fst (net w req) = Received r) \<and> is_success r
              \<and> body_lines r = ex_lines
            \<longrightarrow> fst (stream loads net c w endpoint data)
                  = ([Http (stream_request c endpoint data), Yield a, Yield b], None)"
  proof (intro allI impI)
    fix r
    assume a: "(\<forall>req. fst (net w req) = Received r) \<and> is_success r \<and> body_lines r = ex_lines"
    then have n: "\<forall>req. fst (net w req) = Received r" by simp
    from a lines show "fst (stream loads net c w endpoint data)
                  = ([Http (stream_request c endpoint data), Yield a, Yield b], None)"
      by (simp add: stream_result [where net = net and w = w and out = "Received r", OF n])
  qed
  from lines whole show ?thesis unfolding ex_lines_def by blast
qed

theorem stream_reads_two_objects_witness:
  \<open>stream_lines json_loads
      [''data: {"content":"a"}'', ''data: {"content":"b"}'', ''data: [DONE]'']
    = ([Yield (JObject [(''content'', JString ''a'')]),
        Yield (JObject [(''content'', JString ''b'')])], True)
   \<and> yielded (fst (fst (stream json_loads (ex_net (Received ex_stream_response)) ex_client ()
                ''exocortex/ask'' [(''query'', JString ''hello'')])))
    = [JObject [(''content'', JString ''a'')], JObject [(''content'', JString ''b'')]]
   \<and> snd (fst (stream json_loads (ex_net (Received ex_stream_response)) ex_client ()
                ''exocortex/ask'' [(''query'', JString ''hello'')])) = None\<close>
proof -
  have n: "\<forall>req. fst (ex_net (Received ex_stream_response) () req) = Received ex_stream_response"
    by (simp add: ex_net_def)
  have ok: "is_success ex_stream_response"
    by (simp add: is_success_def ex_stream_response_def)
  have l: \<open>body_lines ex_stream_response
      = [''data: {"content":"a"}'', ''data: {"content":"b"}'', ''data: [DONE]'']\<close>
    by (simp add: ex_stream_response_def ex_lines_def)
  note T = stream_reads_two_objects [OF loads_content_a loads_content_b,
      where net = "ex_net (Received ex_stream_response)" and w = "()" and c = ex_client
        and endpoint = "''exocortex/ask''" and data = "[(''query'', JString ''hello'')]"]
  from T have one: \<open>stream_lines json_loads
      [''data: {"content":"a"}'', ''data: {"content":"b"}'', ''data: [DONE]'']
    = ([Yield (JObject [(''content'', JString ''a'')]),
        Yield (JObject [(''content'', JString ''b'')])], True)\<close>
    by blast
  from T n ok l have "fst (stream json_loads (ex_net (Received ex_stream_response)) ex_client ()
                ''exocortex/ask'' [(''query'', JString ''hello'')])
      = ([Http (stream_request ex_client ''exocortex/ask'' [(''query'', JString ''hello'')]),
          Yield (JObject [(''content'', JString ''a'')]),
          Yield (JObject [(''content'', JString ''b'')])], None)"
    by blast
  then have two: \<open>yielded (fst (fst (stream json_loads (ex_net (Received ex_stream_response)) ex_client ()
                ''exocortex/ask'' [(''query'', JString ''hello'')])))
    = [JObject [(''content'', JString ''a'')], JObject [(''content'', JString ''b'')]]
   \<and> snd (fst (stream json_loads (ex_net (Received ex_stream_response)) ex_client ()
                ''exocortex/ask'' [(''query'', JString ''hello'')])) = None\<close>
    by simp
  from one two show ?thesis by blast
qed

subsection \<open>Malformed lines of the stream\<close>




section \<open>The indexes of the lists\<close>

subsection \<open>Helper lemmas\<close>






lemma build_all_Inr: "build_all mk xs = Inr ys \<Longrightarrow> map mk xs = map Inr ys"
proof (induction xs arbitrary: ys)
  case Nil
  then show ?case by simp
next
  case (Cons x xs)
  then show ?case by (auto split: sum.splits)
qed








subsection \<open>Rebuilding an index\<close>




section \<open>The commands\<close>

subsection \<open>Helper lemmas\<close>


lemma requests_simps [simp]:
  "requests [] = []"
  "requests (Http r # es) = r # requests es"
  "requests (Print d # es) = requests es"
  "requests (Confirm_ask q # es) = requests es"
  "requests (Log_warning s # es) = requests es"
  "requests (Yield v # es) = requests es"
  "requests (xs @ ys) = requests xs @ requests ys"
  by (simp_all add: requests_def)




























subsection \<open>Commands by index\<close>





subsection \<open>Commands without a credential\<close>

lemma refused_without_credential:
  assumes "client cli = None"
  shows "execute_command cli command args = Refused credential_required \<longleftrightarrow>
     command \<notin> set [''/help'', ''/h'', ''help'', ''/key'', ''/k'', ''key'', ''/clear'', ''/c'',
                      ''clear'', ''/quit'', ''/q'', ''quit'', ''exit'']"
  using assms by (auto simp: execute_command_def)

text \<open>
  C6 at the token \<open>/exit\<close>. With a client, \<open>/exit\<close> is routed to the quit handler like
  \<open>/quit\<close>, \<open>quit\<close>, \<open>exit\<close> and \<open>/q\<close>; without one, \<open>exit\<close> and \<open>/quit\<close> still quit,
  while \<open>/exit\<close> gets the panel that asks for the API key: the list of the commands that
  need no client holds \<open>exit\<close> but not \<open>/exit\<close>.
\<close>

theorem exit_alias_refused_without_credential:
  "execute_command (ex_cli\<lparr>client := None\<rparr>) ''/exit'' [] = Refused credential_required
   \<and> execute_command (ex_cli\<lparr>client := None\<rparr>) ''exit'' [] = Call Cmd_quit
   \<and> execute_command (ex_cli\<lparr>client := None\<rparr>) ''/quit'' [] = Call Cmd_quit
   \<and> execute_command ex_cli ''/exit'' [] = Call Cmd_quit"
  by (simp add: execute_command_def ex_cli_def)

end
